theory Spec2Isabelle
  imports Main
begin

section \<open>Strings\<close>

text \<open>
  A JavaScript string is a sequence of UTF-16 code units. The segmenter depends on which
  code units \<^verbatim>\<open>String.prototype.trim\<close> and the regular expression class \<^verbatim>\<open>\s\<close> treat
  as white space (the same set: WhiteSpace and LineTerminator of ECMAScript), and on which
  code units the regular expression \<^verbatim>\<open>.\<close> refuses (the line terminators), so a string
  is modelled as the list of its code units.
\<close>

type_synonym jsstring = "nat list"

definition ascii :: "string \<Rightarrow> jsstring" where
  "ascii s = map of_char s"

definition isLineTerminator :: "nat \<Rightarrow> bool" where
  "isLineTerminator c \<longleftrightarrow> c = 10 \<or> c = 13 \<or> c = 8232 \<or> c = 8233"

definition isWhiteSpace :: "nat \<Rightarrow> bool" where
  "isWhiteSpace c \<longleftrightarrow>
     c = 9 \<or> c = 10 \<or> c = 11 \<or> c = 12 \<or> c = 13 \<or> c = 32 \<or> c = 160 \<or> c = 5760 \<or>
     (8192 \<le> c \<and> c \<le> 8202) \<or> c = 8232 \<or> c = 8233 \<or> c = 8239 \<or> c = 8287 \<or>
     c = 12288 \<or> c = 65279"

definition isDigit :: "nat \<Rightarrow> bool" where
  "isDigit c \<longleftrightarrow> 48 \<le> c \<and> c \<le> 57"

definition trim :: "jsstring \<Rightarrow> jsstring" where
  "trim s = rev (dropWhile isWhiteSpace (rev (dropWhile isWhiteSpace s)))"

text \<open>
  \<^verbatim>\<open>content.split(/\r?\n/)\<close>: scanning from the left, a line feed ends the current line,
  and so does a carriage return that is directly followed by a line feed; a carriage
  return on its own stays in the line. The empty string gives one empty line.
\<close>

fun prepend :: "nat \<Rightarrow> jsstring list \<Rightarrow> jsstring list" where
  "prepend c [] = [[c]]"
| "prepend c (l # ls) = (c # l) # ls"

fun split :: "jsstring \<Rightarrow> jsstring list" where
  "split [] = [[]]"
| "split [c] = (if c = 10 then [[], []] else [[c]])"
| "split (c # d # cs) =
     (if c = 10 then [] # split (d # cs)
      else if c = 13 \<and> d = 10 then [] # split cs
      else prepend c (split (d # cs)))"

section \<open>Message content segmenter\<close>

datatype MessageSegment =
    Heading nat jsstring
  | Paragraph jsstring
  | ListSeg "jsstring list"
  | Divider

record parser =
  segments :: "MessageSegment list"
  listBuffer :: "jsstring list"

definition flushList :: "parser \<Rightarrow> parser" where
  "flushList p =
     (if listBuffer p \<noteq> []
      then \<lparr>segments = segments p @ [ListSeg (listBuffer p)], listBuffer = []\<rparr>
      else p)"

definition push :: "MessageSegment \<Rightarrow> parser \<Rightarrow> parser" where
  "push seg p = p\<lparr>segments := segments p @ [seg]\<rparr>"

text \<open>
  \<^verbatim>\<open>line.match(/^(#{1,4})\s+(.*)$/)\<close>. The run of \<^verbatim>\<open>#\<close> is matched greedily and must be
  followed by white space, so the whole leading run has one to four characters. The
  white space is matched greedily too, and the rest of the line must be matched by
  \<^verbatim>\<open>.*\<close> up to the end of the string, which fails when it holds a line terminator
  (giving white space back to \<^verbatim>\<open>.*\<close> only lengthens what it has to match). The result is
  the length of the first group and the text of the second.
\<close>

definition headingMatch :: "jsstring \<Rightarrow> (nat \<times> jsstring) option" where
  "headingMatch line =
     (let hashes = takeWhile (\<lambda>c. c = 35) line;
          rest = dropWhile (\<lambda>c. c = 35) line;
          body = dropWhile isWhiteSpace rest
      in if 1 \<le> length hashes \<and> length hashes \<le> 4 \<and>
            rest \<noteq> [] \<and> isWhiteSpace (hd rest) \<and>
            list_all (\<lambda>c. \<not> isLineTerminator c) body
         then Some (length hashes, body) else None)"

text \<open>
  \<^verbatim>\<open>/^[-*]\s+/.test(line)\<close> with \<^verbatim>\<open>line.replace(/^[-*]\s+/, "")\<close>: when the line starts with
  a hyphen or an asterisk and white space, the item is the line without the marker and
  the whole run of white space after it.
\<close>

definition bulletMatch :: "jsstring \<Rightarrow> jsstring option" where
  "bulletMatch line =
     (case line of
        [] \<Rightarrow> None
      | c # rest \<Rightarrow>
          if (c = 45 \<or> c = 42) \<and> rest \<noteq> [] \<and> isWhiteSpace (hd rest)
          then Some (dropWhile isWhiteSpace rest) else None)"

text \<open>
  \<^verbatim>\<open>/^\d+\.\s+/.test(line)\<close> with \<^verbatim>\<open>line.replace(/^\d+\.\s+/, "")\<close>: a non-empty run of
  decimal digits, a full stop and white space.
\<close>

definition orderedMatch :: "jsstring \<Rightarrow> jsstring option" where
  "orderedMatch line =
     (let digits = takeWhile isDigit line; rest = dropWhile isDigit line
      in case rest of
           [] \<Rightarrow> None
         | c # rest' \<Rightarrow>
             if digits \<noteq> [] \<and> c = 46 \<and> rest' \<noteq> [] \<and> isWhiteSpace (hd rest')
             then Some (dropWhile isWhiteSpace rest') else None)"

text \<open>The body of the \<^verbatim>\<open>forEach\<close> callback: one raw line, in the order of the source.\<close>

definition processLine :: "parser \<Rightarrow> jsstring \<Rightarrow> parser" where
  "processLine p rawLine =
     (let line = trim rawLine in
      if line = [] then flushList p
      else if line = [45, 45, 45] then push Divider (flushList p)
      else case headingMatch line of
        Some (n, t) \<Rightarrow> push (Heading n t) (flushList p)
      | None \<Rightarrow>
          (case bulletMatch line of
             Some item \<Rightarrow> p\<lparr>listBuffer := listBuffer p @ [item]\<rparr>
           | None \<Rightarrow>
               (case orderedMatch line of
                  Some item \<Rightarrow> p\<lparr>listBuffer := listBuffer p @ [item]\<rparr>
                | None \<Rightarrow> push (Paragraph line) (flushList p))))"

definition parseMessageContent :: "jsstring \<Rightarrow> MessageSegment list" where
  "parseMessageContent content =
     segments (flushList (foldl processLine \<lparr>segments = [], listBuffer = []\<rparr> (split content)))"

section \<open>Chat types\<close>

datatype ChatRole = User | Assistant | System

record ChatMessage =
  role :: ChatRole
  content :: jsstring

record ChatUsage =
  inputTokens :: "int option"
  outputTokens :: "int option"
  totalTokens :: "int option"
  cachedInputTokens :: "int option"
  reasoningTokens :: "int option"

text \<open>\<^verbatim>\<open>UIMessage = ChatMessage & { id: string; usage?: ChatUsage }\<close>; the field \<^verbatim>\<open>id\<close> is
  called \<open>ident\<close> here.\<close>

record UIMessage = ChatMessage +
  ident :: jsstring
  usage :: "ChatUsage option"

text \<open>\<^verbatim>\<open>a ?? b\<close>: the left operand unless it is null or undefined.\<close>

definition nullish :: "'a option \<Rightarrow> 'a \<Rightarrow> 'a" where
  "nullish a b = (case a of Some x \<Rightarrow> x | None \<Rightarrow> b)"

text \<open>The string literals of the source, as UTF-16 code units.\<close>

definition welcomeText :: jsstring where
  "welcomeText = [20320, 22909, 65281, 21578, 35785, 25105, 20170, 22825, 24819, 21507,
     20160, 20040, 65292, 25105, 26469, 20026, 20320, 23450, 21046, 33756, 35889, 32,
     55356, 57203]"

definition fallbackAnswer :: jsstring where
  "fallbackAnswer = [25265, 27465, 65292, 25105, 26242, 26102, 26080, 27861, 32473, 20986,
     31572, 26696, 65292, 35831, 31245, 21518, 37325, 35797, 12290]"

definition serviceUnavailable :: jsstring where
  "serviceUnavailable = [26381, 21153, 26242, 26102, 19981, 21487, 29992]"

definition sendFailed :: jsstring where
  "sendFailed = [21457, 36865, 22833, 36133, 65292, 35831, 37325, 35797, 12290]"




section \<open>Conversation state of the page\<close>

text \<open>
  \<^verbatim>\<open>generateId()\<close> reads a random source; each call of it is a parameter of the function
  that makes the call, holding the identifier that the call returned.
\<close>

definition createWelcomeMessage :: "jsstring \<Rightarrow> UIMessage" where
  "createWelcomeMessage newId =
     \<lparr>role = Assistant, content = welcomeText, ident = newId, usage = None\<rparr>"

text \<open>
  The item of \<^verbatim>\<open>localStorage\<close> under \<^verbatim>\<open>STORAGE_KEY\<close>, up to what \<^verbatim>\<open>JSON.parse\<close> makes
  of its text: the empty text, a text that \<^verbatim>\<open>JSON.parse\<close> rejects, or a text that parses
  to an array (whose elements the source casts to \<^verbatim>\<open>UIMessage\<close> unchecked) or to another
  value. \<open>None\<close> is the \<^verbatim>\<open>null\<close> of \<^verbatim>\<open>getItem\<close> for a missing key.
\<close>

datatype json = JArray "UIMessage list" | JOther

datatype item = EmptyText | Malformed | Json json

definition JSON_parse :: "item \<Rightarrow> json option" where
  "JSON_parse t = (case t of Json v \<Rightarrow> Some v | _ \<Rightarrow> None)"

definition JSON_stringify :: "UIMessage list \<Rightarrow> item" where
  "JSON_stringify ms = Json (JArray ms)"

record page =
  messages :: "UIMessage list"
  input :: jsstring
  isLoading :: bool
  error :: "jsstring option"
  isHydrated :: bool
  storage :: "item option"

definition initialState :: "jsstring \<Rightarrow> item option \<Rightarrow> page" where
  "initialState newId store =
     \<lparr>messages = [createWelcomeMessage newId], input = [], isLoading = False,
      error = None, isHydrated = False, storage = store\<rparr>"

text \<open>
  The first effect of \<^verbatim>\<open>Home\<close>. \<open>None\<close> of \<open>JSON_parse\<close> is the exception that the
  \<^verbatim>\<open>catch\<close> clause handles; the \<^verbatim>\<open>finally\<close> clause runs on every path.
\<close>

definition loadEffect :: "jsstring \<Rightarrow> page \<Rightarrow> page" where
  "loadEffect newId st =
     (let st' =
        (case storage st of
           None \<Rightarrow> st
         | Some cached \<Rightarrow>
             if cached = EmptyText then st
             else (case JSON_parse cached of
                     None \<Rightarrow> st\<lparr>messages := [createWelcomeMessage newId]\<rparr>
                   | Some (JArray parsed) \<Rightarrow>
                       if length parsed > 0 then st\<lparr>messages := parsed\<rparr>
                       else st\<lparr>messages := [createWelcomeMessage newId]\<rparr>
                   | Some JOther \<Rightarrow> st\<lparr>messages := [createWelcomeMessage newId]\<rparr>))
      in st'\<lparr>isHydrated := True\<rparr>)"

text \<open>The second effect: after a change of \<^verbatim>\<open>messages\<close> or \<^verbatim>\<open>isHydrated\<close>.\<close>

definition saveEffect :: "page \<Rightarrow> page" where
  "saveEffect st =
     (if \<not> isHydrated st then st
      else st\<lparr>storage := Some (JSON_stringify (messages st))\<rparr>)"

text \<open>Mounting the page: the initial state, then the two effects in their order.\<close>

definition mount :: "jsstring \<Rightarrow> jsstring \<Rightarrow> item option \<Rightarrow> page" where
  "mount id0 id1 store = saveEffect (loadEffect id1 (initialState id0 store))"

definition handleClearHistory :: "jsstring \<Rightarrow> page \<Rightarrow> page" where
  "handleClearHistory newId st =
     (if isLoading st then st
      else let welcome = createWelcomeMessage newId
           in saveEffect (st\<lparr>messages := [welcome],
                             storage := Some (JSON_stringify [welcome])\<rparr>))"

section \<open>Submission\<close>

text \<open>
  What \<^verbatim>\<open>await response.json()\<close> gives the page: an object with the key \<^verbatim>\<open>error\<close>
  (whose value may be null), or an object without it, read through the optional fields
  \<^verbatim>\<open>runId\<close>, \<^verbatim>\<open>message?.role\<close>, \<^verbatim>\<open>message?.content\<close> and \<^verbatim>\<open>usage\<close>.
\<close>

datatype payload =
    ErrorPayload "jsstring option"
  | SuccessPayload "jsstring option" "(ChatRole option \<times> jsstring option) option"
      "ChatUsage option"

text \<open>
  The outcome of the \<^verbatim>\<open>try\<close> block up to the test of the payload: a payload, or a thrown
  value (a rejected \<^verbatim>\<open>fetch\<close>, a body that is not JSON, a payload that is not an object),
  which is an \<^verbatim>\<open>Error\<close> with its message or something else.
\<close>

datatype outcome = Payload payload | ThrownError jsstring | ThrownOther

definition payloadRole :: "(ChatRole option \<times> jsstring option) option \<Rightarrow> ChatRole option" where
  "payloadRole m = (case m of None \<Rightarrow> None | Some (r, c) \<Rightarrow> r)"

definition payloadContent :: "(ChatRole option \<times> jsstring option) option \<Rightarrow> jsstring option" where
  "payloadContent m = (case m of None \<Rightarrow> None | Some (r, c) \<Rightarrow> c)"

text \<open>
  \<^verbatim>\<open>handleSubmit\<close> up to its \<^verbatim>\<open>await\<close>: \<open>None\<close> is the early return; otherwise the state
  after the optimistic update, the user message, the optimistic message list that the
  closure keeps, and the body of the request.
\<close>

definition submitStart ::
  "jsstring \<Rightarrow> page \<Rightarrow> (page \<times> UIMessage \<times> UIMessage list \<times> ChatMessage list) option" where
  "submitStart userId st =
     (if trim (input st) = [] \<or> isLoading st then None
      else let userMessage = \<lparr>role = User, content = trim (input st), ident = userId,
                              usage = None\<rparr>;
               optimisticMessages = messages st @ [userMessage];
               st' = saveEffect (st\<lparr>messages := optimisticMessages, input := [],
                                     error := None, isLoading := True\<rparr>)
           in Some (st', userMessage, optimisticMessages,
                    map (\<lambda>m. \<lparr>role = role m, content = content m\<rparr>) optimisticMessages))"

text \<open>
  \<^verbatim>\<open>handleSubmit\<close> after its \<^verbatim>\<open>await\<close>, on the state of that moment: the success branch
  writes the list kept by the closure, the \<^verbatim>\<open>catch\<close> clause filters the current list.
\<close>

definition submitSettle ::
  "jsstring \<Rightarrow> UIMessage \<Rightarrow> UIMessage list \<Rightarrow> outcome \<Rightarrow> page \<Rightarrow> page" where
  "submitSettle assistantId userMessage optimisticMessages out st =
     (let failed = (\<lambda>message.
            saveEffect (st\<lparr>error := Some message,
                            messages := filter (\<lambda>msg. ident msg \<noteq> ident userMessage) (messages st),
                            input := content userMessage,
                            isLoading := False\<rparr>))
      in case out of
           ThrownError message \<Rightarrow> failed message
         | ThrownOther \<Rightarrow> failed sendFailed
         | Payload (ErrorPayload e) \<Rightarrow> failed (nullish e serviceUnavailable)
         | Payload (SuccessPayload rid msg usg) \<Rightarrow>
             (let assistantMessage =
                    \<lparr>role = nullish (payloadRole msg) Assistant,
                     content = nullish (payloadContent msg) fallbackAnswer,
                     ident = nullish rid assistantId,
                     usage = usg\<rparr>
              in saveEffect (st\<lparr>messages := optimisticMessages @ [assistantMessage],
                                 isLoading := False\<rparr>)))"

text \<open>
  One whole call of \<^verbatim>\<open>handleSubmit\<close> against a gateway \<open>fetch\<close>: the final state and the
  requests that were sent.
\<close>

definition handleSubmit ::
  "(ChatMessage list \<Rightarrow> outcome) \<Rightarrow> jsstring \<Rightarrow> jsstring \<Rightarrow> page \<Rightarrow> page \<times> ChatMessage list list" where
  "handleSubmit fetch userId assistantId st =
     (case submitStart userId st of
        None \<Rightarrow> (st, [])
      | Some (st', userMessage, optimisticMessages, body) \<Rightarrow>
          (submitSettle assistantId userMessage optimisticMessages (fetch body) st', [body]))"

section \<open>Gateway\<close>

datatype exn = ZodError "jsstring list" | OtherError

text \<open>\<^verbatim>\<open>ChatCompletion\<close>, the output of the workflow; its \<^verbatim>\<open>usage\<close> is \<open>completionUsage\<close>.\<close>

record ChatCompletion =
  message :: ChatMessage
  completionUsage :: "ChatUsage option"
  runId :: "jsstring option"










section \<open>Agent delegation step\<close>

text \<open>
  What \<^verbatim>\<open>recipeAgent.generate\<close> returns, as far as \<^verbatim>\<open>execute\<close> reads it: \<^verbatim>\<open>text\<close>,
  \<^verbatim>\<open>usage\<close>, \<^verbatim>\<open>response?.id\<close> and \<^verbatim>\<open>traceId\<close>.
\<close>

record agentResponse =
  responseId :: "jsstring option"

record generateResult =
  resultText :: "jsstring option"
  resultUsage :: "ChatUsage option"
  resultResponse :: "agentResponse option"
  traceId :: "jsstring option"

definition execute ::
  "(ChatMessage list \<Rightarrow> exn + generateResult) \<Rightarrow> ChatMessage list \<Rightarrow> exn + ChatCompletion" where
  "execute generate inputData =
     (let agentMessages = map (\<lambda>m. \<lparr>role = role m, content = content m\<rparr>) inputData
      in case generate agentMessages of
           Inl e \<Rightarrow> Inl e
         | Inr result \<Rightarrow>
             (let text' = nullish (resultText result) []
              in Inr \<lparr>message = \<lparr>role = Assistant, content = text'\<rparr>,
                      completionUsage = resultUsage result,
                      runId = (case (case resultResponse result of
                                       None \<Rightarrow> None | Some r \<Rightarrow> responseId r) of
                                 Some i \<Rightarrow> Some i
                               | None \<Rightarrow> traceId result)\<rparr>))"

section \<open>Properties stated about the program\<close>

subsection \<open>Order of the segments\<close>

text \<open>
  The flattening of a segment sequence back to line contents: one token per heading,
  paragraph and divider, one token per item of a list.
\<close>

datatype token = THeading nat jsstring | TParagraph jsstring | TItem jsstring | TDivider

fun segmentTokens :: "MessageSegment \<Rightarrow> token list" where
  "segmentTokens (Heading n t) = [THeading n t]"
| "segmentTokens (Paragraph t) = [TParagraph t]"
| "segmentTokens (ListSeg xs) = map TItem xs"
| "segmentTokens Divider = [TDivider]"

text \<open>
  What one line contributes by the rules of the specification, read on its own and
  without the state of the loop: nothing for a blank line, a divider, a heading, a list
  item, or a paragraph.
\<close>

definition lineProduces :: "jsstring \<Rightarrow> token option" where
  "lineProduces rawLine =
     (let line = trim rawLine in
      if line = [] then None
      else if line = ascii ''---'' then Some TDivider
      else case headingMatch line of
        Some (n, t) \<Rightarrow> Some (THeading n t)
      | None \<Rightarrow>
          (case bulletMatch line of
             Some item \<Rightarrow> Some (TItem item)
           | None \<Rightarrow>
               (case orderedMatch line of
                  Some item \<Rightarrow> Some (TItem item)
                | None \<Rightarrow> Some (TParagraph line))))"

definition parserTokens :: "parser \<Rightarrow> token list" where
  "parserTokens p = concat (map segmentTokens (segments p)) @ map TItem (listBuffer p)"

definition listsNonEmpty :: "MessageSegment list \<Rightarrow> bool" where
  "listsNonEmpty segs \<longleftrightarrow> ListSeg [] \<notin> set segs"

subsection \<open>Texts without surrounding white space\<close>




subsection \<open>Envelopes, outcomes and stored values\<close>



text \<open>An error-shaped response or a transport failure: every outcome but a success payload.\<close>

definition failureOutcome :: "outcome \<Rightarrow> bool" where
  "failureOutcome out =
     (case out of Payload (SuccessPayload rid msg usg) \<Rightarrow> False | _ \<Rightarrow> True)"

definition requestBody :: "UIMessage list \<Rightarrow> ChatMessage list" where
  "requestBody ms = map (\<lambda>m. \<lparr>role = role m, content = content m\<rparr>) ms"

text \<open>A stored value that is absent, empty, malformed, not a sequence, or an empty sequence.\<close>

definition noHistory :: "item option \<Rightarrow> bool" where
  "noHistory store =
     (case store of
        None \<Rightarrow> True
      | Some EmptyText \<Rightarrow> True
      | Some Malformed \<Rightarrow> True
      | Some (Json JOther) \<Rightarrow> True
      | Some (Json (JArray parsed)) \<Rightarrow> parsed = [])"

subsection \<open>Concrete inputs\<close>






definition boomGateway :: "ChatMessage list \<Rightarrow> outcome" where
  "boomGateway body = Payload (ErrorPayload (Some (ascii ''boom'')))"

definition stirFryGateway :: "ChatMessage list \<Rightarrow> outcome" where
  "stirFryGateway body =
     Payload (SuccessPayload (Some (ascii ''r1''))
       (Some (Some Assistant, Some (ascii ''Try stir-fry''))) None)"

text \<open>The mounted page with nothing stored, after the user typed \<open>t\<close>.\<close>

definition typing :: "jsstring \<Rightarrow> page" where
  "typing t = (mount (ascii ''w0'') (ascii ''w1'') None)\<lparr>input := t\<rparr>"

text \<open>The state of the page while the request of a submission is in flight.\<close>

definition awaiting :: "jsstring \<Rightarrow> page \<Rightarrow> page" where
  "awaiting userId st =
     (case submitStart userId st of
        None \<Rightarrow> st
      | Some (st', userMessage, optimisticMessages, body) \<Rightarrow> st')"

text \<open>An agent that answers without text and without a response identifier.\<close>

definition silentAgent :: "ChatMessage list \<Rightarrow> exn + generateResult" where
  "silentAgent ms =
     Inr \<lparr>resultText = None, resultUsage = None,
          resultResponse = Some \<lparr>responseId = None\<rparr>, traceId = Some (ascii ''t1'')\<rparr>"

section \<open>The segmenter on an example\<close>

lemma split_example:
  "split (ascii ''# Title'' @ [10] @ ascii ''- a'' @ [10] @ ascii ''- b'' @ [10] @
          ascii ''---'' @ [10] @ ascii ''Done'') =
   [ascii ''# Title'', ascii ''- a'', ascii ''- b'', ascii ''---'', ascii ''Done'']"
  by (simp add: ascii_def)

lemma processLine_title:
  "processLine p (ascii ''# Title'') = push (Heading 1 (ascii ''Title'')) (flushList p)"
  by (simp add: ascii_def processLine_def trim_def isWhiteSpace_def headingMatch_def
      isLineTerminator_def)

lemma processLine_item_a:
  "processLine p (ascii ''- a'') = p\<lparr>listBuffer := listBuffer p @ [ascii ''a'']\<rparr>"
  by (simp add: ascii_def processLine_def trim_def isWhiteSpace_def headingMatch_def
      bulletMatch_def)

lemma processLine_item_b:
  "processLine p (ascii ''- b'') = p\<lparr>listBuffer := listBuffer p @ [ascii ''b'']\<rparr>"
  by (simp add: ascii_def processLine_def trim_def isWhiteSpace_def headingMatch_def
      bulletMatch_def)

lemma processLine_rule:
  "processLine p (ascii ''---'') = push Divider (flushList p)"
  by (simp add: ascii_def processLine_def trim_def isWhiteSpace_def)

lemma processLine_done:
  "processLine p (ascii ''Done'') = push (Paragraph (ascii ''Done'')) (flushList p)"
  by (simp add: ascii_def processLine_def trim_def isWhiteSpace_def headingMatch_def
      bulletMatch_def orderedMatch_def isDigit_def)

text \<open>
  Claim C7: segmenting the string \<^verbatim>\<open>"# Title\n- a\n- b\n---\nDone"\<close> gives exactly the
  heading of level 1 with text \<^verbatim>\<open>Title\<close>, the list of \<^verbatim>\<open>a\<close> and \<^verbatim>\<open>b\<close>, a divider and the
  paragraph \<^verbatim>\<open>Done\<close>, in that order.
\<close>

theorem parseMessageContent_example:
  "parseMessageContent
     (ascii ''# Title'' @ [10] @ ascii ''- a'' @ [10] @ ascii ''- b'' @ [10] @
      ascii ''---'' @ [10] @ ascii ''Done'') =
   [Heading 1 (ascii ''Title''), ListSeg [ascii ''a'', ascii ''b''], Divider,
    Paragraph (ascii ''Done'')]"
  unfolding parseMessageContent_def split_example
  by (simp add: processLine_title processLine_item_a processLine_item_b processLine_rule
      processLine_done flushList_def push_def)

section \<open>The segments keep the order of the lines\<close>

lemma parserTokens_flushList: "parserTokens (flushList p) = parserTokens p"
  by (simp add: parserTokens_def flushList_def)

lemma listBuffer_flushList: "listBuffer (flushList p) = []"
  by (simp add: flushList_def)

lemma parserTokens_push:
  "listBuffer p = [] \<Longrightarrow> parserTokens (push seg p) = parserTokens p @ segmentTokens seg"
  by (simp add: parserTokens_def push_def)

lemma parserTokens_push_flush:
  "parserTokens (push seg (flushList p)) = parserTokens p @ segmentTokens seg"
  by (simp add: parserTokens_push listBuffer_flushList parserTokens_flushList)

lemma parserTokens_item:
  "parserTokens (p\<lparr>listBuffer := listBuffer p @ [x]\<rparr>) = parserTokens p @ [TItem x]"
  by (simp add: parserTokens_def)

lemma parserTokens_processLine:
  "parserTokens (processLine p l) =
   parserTokens p @ (case lineProduces l of None \<Rightarrow> [] | Some t \<Rightarrow> [t])"
  by (simp add: processLine_def lineProduces_def Let_def ascii_def parserTokens_push_flush
      parserTokens_item parserTokens_flushList split: option.split prod.split)

lemma parserTokens_foldl:
  "parserTokens (foldl processLine p ls) = parserTokens p @ List.map_filter lineProduces ls"
proof (induction ls arbitrary: p)
  case Nil
  show ?case by (simp add: List.map_filter_simps)
next
  case (Cons l ls)
  show ?case
    by (simp add: Cons.IH parserTokens_processLine List.map_filter_simps split: option.split)
qed

lemma tokens_parse:
  "concat (map segmentTokens (parseMessageContent c)) = List.map_filter lineProduces (split c)"
proof -
  let ?p = "foldl processLine \<lparr>segments = [], listBuffer = []\<rparr> (split c)"
  have "listBuffer (flushList ?p) = []" by (rule listBuffer_flushList)
  then have "concat (map segmentTokens (segments (flushList ?p))) = parserTokens (flushList ?p)"
    by (simp add: parserTokens_def)
  also have "\<dots> = parserTokens ?p" by (rule parserTokens_flushList)
  also have "\<dots> = List.map_filter lineProduces (split c)"
    by (simp add: parserTokens_foldl) (simp add: parserTokens_def)
  finally show ?thesis by (simp add: parseMessageContent_def)
qed

lemma listsNonEmpty_flushList:
  "listsNonEmpty (segments p) \<Longrightarrow> listsNonEmpty (segments (flushList p))"
  by (simp add: flushList_def listsNonEmpty_def)

lemma listsNonEmpty_push:
  "listsNonEmpty (segments p) \<Longrightarrow> seg \<noteq> ListSeg [] \<Longrightarrow> listsNonEmpty (segments (push seg p))"
  by (simp add: push_def listsNonEmpty_def)

lemma listsNonEmpty_processLine:
  "listsNonEmpty (segments p) \<Longrightarrow> listsNonEmpty (segments (processLine p l))"
  by (simp add: processLine_def Let_def listsNonEmpty_push listsNonEmpty_flushList
      split: option.split prod.split)

lemma listsNonEmpty_foldl:
  "listsNonEmpty (segments p) \<Longrightarrow> listsNonEmpty (segments (foldl processLine p ls))"
  by (induction ls arbitrary: p) (simp_all add: listsNonEmpty_processLine)

lemma listsNonEmpty_parse: "listsNonEmpty (parseMessageContent c)"
  unfolding parseMessageContent_def
  by (rule listsNonEmpty_flushList, rule listsNonEmpty_foldl) (simp add: listsNonEmpty_def)

lemma processLine_blank: "trim l = [] \<Longrightarrow> processLine p l = flushList p"
  by (simp add: processLine_def)

lemma foldl_blank:
  "list_all (\<lambda>l. trim l = []) ls \<Longrightarrow> listBuffer p = [] \<Longrightarrow> foldl processLine p ls = p"
  by (induction ls arbitrary: p) (simp_all add: processLine_blank flushList_def)

lemma parse_blank:
  "list_all (\<lambda>l. trim l = []) (split c) \<Longrightarrow> parseMessageContent c = []"
  by (simp add: parseMessageContent_def foldl_blank flushList_def)

text \<open>
  Claim C8: for every content string the segments keep the order of the input lines:
  flattened to one token per heading, paragraph, divider and list item, the segment
  sequence is the sequence of what the lines produce, line by line. Content whose lines
  are all blank, the empty string included, gives no segment, and no emitted list is
  empty.
\<close>

theorem parseMessageContent_order:
  "concat (map segmentTokens (parseMessageContent c)) = List.map_filter lineProduces (split c) \<and>
   (list_all (\<lambda>l. trim l = []) (split c) \<longrightarrow> parseMessageContent c = []) \<and>
   parseMessageContent [] = [] \<and>
   ListSeg [] \<notin> set (parseMessageContent c)"
proof -
  have "list_all (\<lambda>l. trim l = []) (split [])" by (simp add: trim_def)
  then have "parseMessageContent [] = []" by (rule parse_blank)
  moreover have "ListSeg [] \<notin> set (parseMessageContent c)"
    using listsNonEmpty_parse [of c] by (simp add: listsNonEmpty_def)
  ultimately show ?thesis by (simp add: tokens_parse parse_blank)
qed

theorem parseMessageContent_order_witness:
  "list_all (\<lambda>l. trim l = []) (split [32, 13, 10, 9, 10]) \<and>
   parseMessageContent [32, 13, 10, 9, 10] = []"
proof -
  have h: "list_all (\<lambda>l. trim l = []) (split [32, 13, 10, 9, 10])"
    by (simp add: trim_def isWhiteSpace_def)
  with parseMessageContent_order [of "[32, 13, 10, 9, 10]"] show ?thesis by simp
qed

section \<open>Lines are classified after trimming\<close>






















section \<open>The envelopes of the gateway\<close>








section \<open>The result of the delegation step\<close>

text \<open>
  Claim C9: for every result of the agent, \<^verbatim>\<open>execute\<close> returns a message of role
  assistant whose content is the text of the result, the empty string when there is
  none; the usage copied as it is; and as \<^verbatim>\<open>runId\<close> the identifier of the agent's
  response, or the trace identifier when the response or its identifier is absent.
\<close>

theorem execute_normalizes:
  assumes "generate (map (\<lambda>m. \<lparr>role = role m, content = content m\<rparr>) inputData) = Inr result"
  shows "execute generate inputData =
     Inr \<lparr>message = \<lparr>role = Assistant,
                      content = (case resultText result of Some t \<Rightarrow> t | None \<Rightarrow> [])\<rparr>,
          completionUsage = resultUsage result,
          runId = (case resultResponse result of
                     None \<Rightarrow> traceId result
                   | Some r \<Rightarrow> (case responseId r of Some i \<Rightarrow> Some i | None \<Rightarrow> traceId result))\<rparr>"
  using assms by (simp add: execute_def nullish_def split: option.splits)

theorem execute_normalizes_witness:
  "silentAgent (map (\<lambda>m. \<lparr>role = role m, content = content m\<rparr>)
       [\<lparr>role = User, content = ascii ''hi''\<rparr>]) =
     Inr \<lparr>resultText = None, resultUsage = None,
          resultResponse = Some \<lparr>responseId = None\<rparr>, traceId = Some (ascii ''t1'')\<rparr> \<and>
   execute silentAgent [\<lparr>role = User, content = ascii ''hi''\<rparr>] =
     Inr \<lparr>message = \<lparr>role = Assistant, content = []\<rparr>, completionUsage = None,
          runId = Some (ascii ''t1'')\<rparr>"
proof -
  have h: "silentAgent (map (\<lambda>m. \<lparr>role = role m, content = content m\<rparr>)
       [\<lparr>role = User, content = ascii ''hi''\<rparr>]) =
     Inr \<lparr>resultText = None, resultUsage = None,
          resultResponse = Some \<lparr>responseId = None\<rparr>, traceId = Some (ascii ''t1'')\<rparr>"
    by (simp add: silentAgent_def)
  from execute_normalizes [of silentAgent "[\<lparr>role = User, content = ascii ''hi''\<rparr>]", OF h] h
  show ?thesis by simp
qed

section \<open>Loading and clearing the conversation\<close>

lemma messages_saveEffect: "messages (saveEffect st) = messages st"
  and input_saveEffect: "input (saveEffect st) = input st"
  and isLoading_saveEffect: "isLoading (saveEffect st) = isLoading st"
  and error_saveEffect: "error (saveEffect st) = error st"
  by (simp_all add: saveEffect_def)

lemmas saveEffect_fields =
  messages_saveEffect input_saveEffect isLoading_saveEffect error_saveEffect

lemma typing_fields:
  "messages (typing t) = [createWelcomeMessage (ascii ''w0'')]"
  "input (typing t) = t"
  "isLoading (typing t) = False"
  "isHydrated (typing t) = True"
  by (simp_all add: typing_def mount_def loadEffect_def initialState_def saveEffect_def)

lemma trim_hi: "trim (ascii ''hi'') = ascii ''hi''"
  and trim_padded_hi: "trim (ascii '' hi '') = ascii ''hi''"
  by (simp_all add: trim_def ascii_def isWhiteSpace_def)

lemma awaiting_fields:
  "messages (awaiting (ascii ''u1'') (typing (ascii ''hi''))) =
     [createWelcomeMessage (ascii ''w0''),
      \<lparr>role = User, content = ascii ''hi'', ident = ascii ''u1'', usage = None\<rparr>]"
  "isLoading (awaiting (ascii ''u1'') (typing (ascii ''hi''))) = True"
  by (simp_all add: awaiting_def submitStart_def typing_fields trim_hi saveEffect_fields Let_def)
    (simp_all add: ascii_def)

lemma filter_fresh:
  "userId \<notin> ident ` set ms \<Longrightarrow>
   filter (\<lambda>msg. ident msg \<noteq> userId)
     (ms @ [\<lparr>role = r, content = c, ident = userId, usage = u\<rparr>]) = ms"
  by (induction ms) auto

text \<open>
  Claim C4: when the stored value is absent, is the empty text, does not parse, parses
  to something that is not a sequence, or parses to the empty sequence, the page is
  mounted with the one-element welcome sequence: one message of role assistant with the
  welcome text. The failure of \<^verbatim>\<open>JSON.parse\<close> is handled inside and nothing is raised.
\<close>

theorem mount_welcome:
  assumes "noHistory store"
  shows "messages (mount id0 id1 store) =
           [createWelcomeMessage (if store = None \<or> store = Some EmptyText then id0 else id1)] \<and>
         length (messages (mount id0 id1 store)) = 1 \<and>
         role (hd (messages (mount id0 id1 store))) = Assistant \<and>
         content (hd (messages (mount id0 id1 store))) = welcomeText"
proof -
  have "messages (mount id0 id1 store) =
          [createWelcomeMessage (if store = None \<or> store = Some EmptyText then id0 else id1)]"
  proof (cases store)
    case None
    then show ?thesis
      by (simp add: mount_def loadEffect_def initialState_def saveEffect_def)
  next
    case (Some cached)
    show ?thesis
    proof (cases cached)
      case EmptyText
      with Some show ?thesis
        by (simp add: mount_def loadEffect_def initialState_def saveEffect_def)
    next
      case Malformed
      with Some show ?thesis
        by (simp add: mount_def loadEffect_def initialState_def saveEffect_def JSON_parse_def)
    next
      case (Json v)
      show ?thesis
      proof (cases v)
        case (JArray parsed)
        with Some Json assms have "parsed = []" by (simp add: noHistory_def)
        with Some Json JArray show ?thesis
          by (simp add: mount_def loadEffect_def initialState_def saveEffect_def JSON_parse_def)
      next
        case JOther
        with Some Json show ?thesis
          by (simp add: mount_def loadEffect_def initialState_def saveEffect_def JSON_parse_def)
      qed
    qed
  qed
  then show ?thesis by (simp add: createWelcomeMessage_def)
qed

theorem mount_welcome_witness:
  "noHistory (Some (Json JOther)) \<and>
   messages (mount (ascii ''w0'') (ascii ''w1'') (Some (Json JOther))) =
     [createWelcomeMessage (ascii ''w1'')] \<and>
   noHistory (Some Malformed) \<and>
   messages (mount (ascii ''w0'') (ascii ''w1'') (Some Malformed)) =
     [createWelcomeMessage (ascii ''w1'')]"
proof -
  have h: "noHistory (Some (Json JOther))" "noHistory (Some Malformed)"
    by (simp_all add: noHistory_def)
  from mount_welcome [OF h(1), of "ascii ''w0''" "ascii ''w1''"]
    mount_welcome [OF h(2), of "ascii ''w0''" "ascii ''w1''"] h
  show ?thesis by simp
qed

text \<open>
  Claim C5, as the code has it: when no submission is in flight, clearing gives a
  conversation of exactly one message, of role assistant and with the identifier
  generated by this call, and writes that conversation to the store; while a submission
  is in flight, clearing changes nothing.
\<close>

theorem handleClearHistory_idle:
  "(\<not> isLoading st \<longrightarrow>
      messages (handleClearHistory newId st) = [createWelcomeMessage newId] \<and>
      length (messages (handleClearHistory newId st)) = 1 \<and>
      role (createWelcomeMessage newId) = Assistant \<and>
      ident (createWelcomeMessage newId) = newId \<and>
      storage (handleClearHistory newId st) = Some (JSON_stringify [createWelcomeMessage newId])) \<and>
   (isLoading st \<longrightarrow> handleClearHistory newId st = st)"
  by (simp add: handleClearHistory_def saveEffect_def createWelcomeMessage_def Let_def)

theorem handleClearHistory_idle_witness:
  "\<not> isLoading (typing []) \<and>
   messages (handleClearHistory (ascii ''w2'') (typing [])) = [createWelcomeMessage (ascii ''w2'')] \<and>
   storage (handleClearHistory (ascii ''w2'') (typing [])) =
     Some (Json (JArray [createWelcomeMessage (ascii ''w2'')])) \<and>
   isLoading (awaiting (ascii ''u1'') (typing (ascii ''hi''))) \<and>
   handleClearHistory (ascii ''w2'') (awaiting (ascii ''u1'') (typing (ascii ''hi''))) =
     awaiting (ascii ''u1'') (typing (ascii ''hi''))"
  using handleClearHistory_idle [of "typing []" "ascii ''w2''"]
    handleClearHistory_idle [of "awaiting (ascii ''u1'') (typing (ascii ''hi''))" "ascii ''w2''"]
  by (simp add: typing_fields awaiting_fields JSON_stringify_def)

text \<open>
  The claim for every prior state fails while a submission is in flight: the
  conversation of two messages stays as it is.
\<close>

theorem handleClearHistory_busy_counterexample:
  "length (messages (handleClearHistory (ascii ''w2'')
      (awaiting (ascii ''u1'') (typing (ascii ''hi''))))) = 2 \<and>
   \<not> (length (messages (handleClearHistory (ascii ''w2'')
      (awaiting (ascii ''u1'') (typing (ascii ''hi''))))) = 1)"
  by (simp add: handleClearHistory_def awaiting_fields)

text \<open>
  Claim C6: while a submission is in flight, submitting again changes nothing: the
  state of the page, its conversation included, is the one before, and no request is
  sent; the state has no place where a second submission could wait.
\<close>

theorem handleSubmit_in_flight:
  "isLoading st \<Longrightarrow>
   handleSubmit fetch userId assistantId st = (st, []) \<and> submitStart userId st = None"
  by (simp add: handleSubmit_def submitStart_def)

theorem handleSubmit_in_flight_witness:
  "isLoading (awaiting (ascii ''u1'') (typing (ascii ''hi''))) \<and>
   handleSubmit stirFryGateway (ascii ''u2'') (ascii ''a2'')
     ((awaiting (ascii ''u1'') (typing (ascii ''hi'')))\<lparr>input := ascii ''more''\<rparr>) =
   ((awaiting (ascii ''u1'') (typing (ascii ''hi'')))\<lparr>input := ascii ''more''\<rparr>, [])"
  using handleSubmit_in_flight
    [of "(awaiting (ascii ''u1'') (typing (ascii ''hi'')))\<lparr>input := ascii ''more''\<rparr>"
        stirFryGateway "ascii ''u2''" "ascii ''a2''"]
  by (simp add: awaiting_fields)

section \<open>Reconciling a submission\<close>

lemma submitStart_idle:
  assumes "\<not> isLoading st" and "trim (input st) \<noteq> []"
  shows "submitStart userId st =
     Some (saveEffect (st\<lparr>messages := messages st @
               [\<lparr>role = User, content = trim (input st), ident = userId, usage = None\<rparr>],
             input := [], error := None, isLoading := True\<rparr>),
           \<lparr>role = User, content = trim (input st), ident = userId, usage = None\<rparr>,
           messages st @ [\<lparr>role = User, content = trim (input st), ident = userId, usage = None\<rparr>],
           requestBody (messages st @
             [\<lparr>role = User, content = trim (input st), ident = userId, usage = None\<rparr>]))"
  using assms by (simp add: submitStart_def requestBody_def Let_def)

text \<open>
  Claim C2, as the code has it: when the gateway answers with an error-shaped response,
  or the call fails in transport, and the identifier generated for the user message is
  not yet in the conversation, the conversation after the submission is the one before
  it (so of the same length), an error message is shown, the page is no longer loading,
  and the input field holds the submitted text with its surrounding white space trimmed
  (the content of the removed user message).
\<close>

theorem handleSubmit_rollback:
  assumes "\<not> isLoading st" and "trim (input st) \<noteq> []"
    and "userId \<notin> ident ` set (messages st)"
    and "failureOutcome (fetch (requestBody (messages st @
           [\<lparr>role = User, content = trim (input st), ident = userId, usage = None\<rparr>])))"
  shows "messages (fst (handleSubmit fetch userId assistantId st)) = messages st \<and>
         length (messages (fst (handleSubmit fetch userId assistantId st))) = length (messages st) \<and>
         input (fst (handleSubmit fetch userId assistantId st)) = trim (input st) \<and>
         error (fst (handleSubmit fetch userId assistantId st)) \<noteq> None \<and>
         \<not> isLoading (fst (handleSubmit fetch userId assistantId st))"
proof -
  let ?u = "\<lparr>role = User, content = trim (input st), ident = userId, usage = None\<rparr>"
  let ?o = "messages st @ [?u]"
  let ?st' = "saveEffect (st\<lparr>messages := ?o, input := [], error := None, isLoading := True\<rparr>)"
  have start: "submitStart userId st = Some (?st', ?u, ?o, requestBody ?o)"
    using assms(1,2) by (rule submitStart_idle)
  have m: "messages ?st' = ?o" by (simp add: saveEffect_fields)
  have f: "filter (\<lambda>msg. ident msg \<noteq> ident ?u) ?o = messages st"
    using filter_fresh [OF assms(3)] by simp
  have settle: "messages (submitSettle assistantId ?u ?o out ?st') = messages st \<and>
      input (submitSettle assistantId ?u ?o out ?st') = trim (input st) \<and>
      error (submitSettle assistantId ?u ?o out ?st') \<noteq> None \<and>
      \<not> isLoading (submitSettle assistantId ?u ?o out ?st')"
    if "failureOutcome out" for out
    using that f
    by (simp add: submitSettle_def failureOutcome_def saveEffect_fields m
        split: outcome.splits payload.splits)
  show ?thesis
    using settle [OF assms(4)] by (simp add: handleSubmit_def start)
qed

theorem handleSubmit_rollback_witness:
  "\<not> isLoading (typing (ascii '' hi '')) \<and> trim (input (typing (ascii '' hi ''))) \<noteq> [] \<and>
   ascii ''u1'' \<notin> ident ` set (messages (typing (ascii '' hi ''))) \<and>
   failureOutcome (boomGateway (requestBody (messages (typing (ascii '' hi '')) @
     [\<lparr>role = User, content = trim (input (typing (ascii '' hi ''))), ident = ascii ''u1'',
       usage = None\<rparr>]))) \<and>
   messages (fst (handleSubmit boomGateway (ascii ''u1'') (ascii ''a1'') (typing (ascii '' hi '')))) =
     [createWelcomeMessage (ascii ''w0'')] \<and>
   input (fst (handleSubmit boomGateway (ascii ''u1'') (ascii ''a1'') (typing (ascii '' hi '')))) =
     ascii ''hi''"
proof -
  let ?st = "typing (ascii '' hi '')"
  have h1: "\<not> isLoading ?st" by (simp add: typing_fields)
  have h2: "trim (input ?st) \<noteq> []" by (simp add: typing_fields trim_padded_hi) (simp add: ascii_def)
  have h3: "ascii ''u1'' \<notin> ident ` set (messages ?st)"
    by (simp add: typing_fields createWelcomeMessage_def ascii_def)
  have h4: "failureOutcome (boomGateway (requestBody (messages ?st @
     [\<lparr>role = User, content = trim (input ?st), ident = ascii ''u1'', usage = None\<rparr>])))"
    by (simp add: boomGateway_def failureOutcome_def)
  from handleSubmit_rollback [where fetch = boomGateway and st = ?st
      and userId = "ascii ''u1''" and assistantId = "ascii ''a1''", OF h1 h2 h3 h4] h1 h2 h3 h4
  show ?thesis by (simp add: typing_fields trim_padded_hi)
qed

text \<open>
  The claim that the input field equals the originally submitted text fails for a text
  with surrounding white space: after the gateway answered \<^verbatim>\<open>{error: "boom"}\<close> to the
  submission of \<^verbatim>\<open>" hi "\<close>, the input field holds \<^verbatim>\<open>"hi"\<close>.
\<close>

theorem handleSubmit_rollback_input_counterexample:
  "input (typing (ascii '' hi '')) = ascii '' hi '' \<and>
   input (fst (handleSubmit boomGateway (ascii ''u1'') (ascii ''a1'') (typing (ascii '' hi '')))) =
     ascii ''hi'' \<and>
   \<not> (length (messages (fst (handleSubmit boomGateway (ascii ''u1'') (ascii ''a1'')
              (typing (ascii '' hi ''))))) = length (messages (typing (ascii '' hi ''))) \<and>
      input (fst (handleSubmit boomGateway (ascii ''u1'') (ascii ''a1'') (typing (ascii '' hi '')))) =
        input (typing (ascii '' hi '')))"
  by (simp add: handleSubmit_def submitStart_def submitSettle_def boomGateway_def typing_fields
      trim_padded_hi saveEffect_fields Let_def nullish_def) (simp add: ascii_def)

text \<open>
  Claim C3: for every success-shaped response the submission ends with the conversation
  of before, the user message, and exactly one more message after it: its identifier is
  the \<^verbatim>\<open>runId\<close> of the response when present and a freshly generated one otherwise, its
  role is the role of the payload's message and assistant when that is omitted, its
  content is the content of the payload's message and the fixed fallback text when that
  is omitted, and its usage is the usage of the response.
\<close>

theorem handleSubmit_appends_reply:
  assumes "\<not> isLoading st" and "trim (input st) \<noteq> []"
    and "fetch (requestBody (messages st @
           [\<lparr>role = User, content = trim (input st), ident = userId, usage = None\<rparr>])) =
         Payload (SuccessPayload rid msg usg)"
  shows "messages (fst (handleSubmit fetch userId assistantId st)) =
         messages st @
           [\<lparr>role = User, content = trim (input st), ident = userId, usage = None\<rparr>,
            \<lparr>role = (case msg of Some (Some r, c) \<Rightarrow> r | _ \<Rightarrow> Assistant),
             content = (case msg of Some (r, Some c) \<Rightarrow> c | _ \<Rightarrow> fallbackAnswer),
             ident = (case rid of Some i \<Rightarrow> i | None \<Rightarrow> assistantId),
             usage = usg\<rparr>]"
  using assms(3)
  by (simp add: handleSubmit_def submitStart_idle [OF assms(1,2)] submitSettle_def
      saveEffect_fields nullish_def payloadRole_def payloadContent_def
      split: option.splits prod.splits)

theorem handleSubmit_appends_reply_witness:
  "\<not> isLoading (typing (ascii ''hi'')) \<and> trim (input (typing (ascii ''hi''))) \<noteq> [] \<and>
   stirFryGateway (requestBody (messages (typing (ascii ''hi'')) @
       [\<lparr>role = User, content = trim (input (typing (ascii ''hi''))), ident = ascii ''u1'',
         usage = None\<rparr>])) =
     Payload (SuccessPayload (Some (ascii ''r1''))
       (Some (Some Assistant, Some (ascii ''Try stir-fry''))) None) \<and>
   messages (fst (handleSubmit stirFryGateway (ascii ''u1'') (ascii ''a1'') (typing (ascii ''hi'')))) =
     [createWelcomeMessage (ascii ''w0''),
      \<lparr>role = User, content = ascii ''hi'', ident = ascii ''u1'', usage = None\<rparr>,
      \<lparr>role = Assistant, content = ascii ''Try stir-fry'', ident = ascii ''r1'', usage = None\<rparr>]"
proof -
  let ?st = "typing (ascii ''hi'')"
  have h1: "\<not> isLoading ?st" by (simp add: typing_fields)
  have h2: "trim (input ?st) \<noteq> []" by (simp add: typing_fields trim_hi) (simp add: ascii_def)
  have h3: "stirFryGateway (requestBody (messages ?st @
       [\<lparr>role = User, content = trim (input ?st), ident = ascii ''u1'', usage = None\<rparr>])) =
     Payload (SuccessPayload (Some (ascii ''r1''))
       (Some (Some Assistant, Some (ascii ''Try stir-fry''))) None)"
    by (simp add: stirFryGateway_def)
  from handleSubmit_appends_reply [where fetch = stirFryGateway and st = ?st
      and userId = "ascii ''u1''" and assistantId = "ascii ''a1''", OF h1 h2 h3] h1 h2 h3
  show ?thesis by (simp add: typing_fields trim_hi)
qed

end
